theory Spec2Isabelle
  imports Main
begin

section \<open>Strings and the fragment of the standard library the engine uses\<close>

text \<open>
  \<open>std::string\<close> is a byte string, modelled as \<open>string\<close>. \<open>line.find(pat) != npos\<close>
  is the substring test \<open>contains\<close>; \<open>std::getline\<close> on a string stream splits at
  newlines and yields no line for the empty remainder after the last newline.
\<close>

fun starts_with :: "string \<Rightarrow> string \<Rightarrow> bool" where
  "starts_with s [] = True"
| "starts_with [] (p # ps) = False"
| "starts_with (c # cs) (p # ps) = (c = p \<and> starts_with cs ps)"

fun contains :: "string \<Rightarrow> string \<Rightarrow> bool" where
  "contains [] pat = (pat = [])"
| "contains (c # cs) pat = (starts_with (c # cs) pat \<or> contains cs pat)"

fun getline_acc :: "string \<Rightarrow> string \<Rightarrow> string list" where
  "getline_acc cur [] = (if cur = [] then [] else [rev cur])"
| "getline_acc cur (c # cs) =
     (if c = CHR 0x0A then rev cur # getline_acc [] cs else getline_acc (c # cur) cs)"

definition getlines :: "string \<Rightarrow> string list" where
  "getlines s = getline_acc [] s"

text \<open>\<open>std::to_string\<close> on an \<open>int\<close>: decimal digits, a leading minus sign when negative.\<close>

fun decimal :: "nat \<Rightarrow> string" where
  "decimal n =
     (if n < 10 then [''0123456789'' ! n]
      else decimal (n div 10) @ [''0123456789'' ! (n mod 10)])"

definition to_string :: "int \<Rightarrow> string" where
  "to_string i = (if i < 0 then CHR ''-'' # decimal (nat (- i)) else decimal (nat i))"

text \<open>
  \<open>std::filesystem::path(p).parent_path().string()\<close> for the relative, singly separated
  paths the engine builds (\<open>temp/<id>/main\<close>): everything before the last separator.
\<close>

definition parent_path :: "string \<Rightarrow> string" where
  "parent_path p = rev (tl (dropWhile (\<lambda>c. c \<noteq> CHR ''/'') (rev p)))"

text \<open>
  A character buffer appended to a \<open>std::string\<close> with \<open>+=\<close> is read as a C string:
  it ends at its first NUL byte.
\<close>

definition c_str :: "string \<Rightarrow> string" where
  "c_str buffer = takeWhile (\<lambda>c. c \<noteq> CHR 0x00) buffer"

section \<open>Request options\<close>

text \<open>
  The options of a request are a \<open>nlohmann::json\<close> value. The library is not part of the
  repository; the fragment below gives the accessors the engine calls: \<open>value(key, default)\<close>
  throws \<open>type_error\<close> 306 on a value that is not an object and 302 when the stored value
  has the wrong type, \<open>contains\<close> is false on a value that is not an object, and
  \<open>get<std::string>()\<close> throws 302 on a value that is not a string.
\<close>

datatype json =
    JNull
  | JBool bool
  | JNumber int
  | JString string
  | JArray "json list"
  | JObject "(string \<times> json) list"

datatype exn = type_error nat | filesystem_error string

fun what :: "exn \<Rightarrow> string" where
  "what (type_error n) = ''[json.exception.type_error.'' @ to_string (int n) @ '']''"
| "what (filesystem_error msg) = ''filesystem error: '' @ msg"

fun get_string :: "json \<Rightarrow> exn + string" where
  "get_string (JString s) = Inr s"
| "get_string j = Inl (type_error 302)"

fun get_bool :: "json \<Rightarrow> exn + bool" where
  "get_bool (JBool b) = Inr b"
| "get_bool j = Inl (type_error 302)"

fun value_string :: "json \<Rightarrow> string \<Rightarrow> string \<Rightarrow> exn + string" where
  "value_string (JObject kvs) key dflt =
     (case map_of kvs key of None \<Rightarrow> Inr dflt | Some j \<Rightarrow> get_string j)"
| "value_string j key dflt = Inl (type_error 306)"

fun value_bool :: "json \<Rightarrow> string \<Rightarrow> bool \<Rightarrow> exn + bool" where
  "value_bool (JObject kvs) key dflt =
     (case map_of kvs key of None \<Rightarrow> Inr dflt | Some j \<Rightarrow> get_bool j)"
| "value_bool j key dflt = Inl (type_error 306)"

fun get_strings :: "json list \<Rightarrow> exn + string list" where
  "get_strings [] = Inr []"
| "get_strings (j # js) =
     (case get_string j of
        Inl e \<Rightarrow> Inl e
      | Inr s \<Rightarrow> (case get_strings js of Inl e \<Rightarrow> Inl e | Inr ss \<Rightarrow> Inr (s # ss)))"

text \<open>
  The loop over \<open>options["flags"]\<close>, entered only when the key is present and holds an
  array.
\<close>

fun extra_flags_of :: "json \<Rightarrow> exn + string list" where
  "extra_flags_of (JObject kvs) =
     (case map_of kvs ''flags'' of
        Some (JArray js) \<Rightarrow> get_strings js
      | _ \<Rightarrow> Inr [])"
| "extra_flags_of j = Inr []"

section \<open>Configuration and results\<close>

record CompilerConfig =
  compiler_path :: string
  clang_path :: string
  default_compiler :: string
  cpp_standard :: string
  optimization_level :: string
  compilation_timeout :: int

record ExecutionConfig =
  sandbox_enabled :: bool
  execution_timeout :: int
  max_memory_mb :: int
  max_cpu_time :: int
  docker_image :: string

text \<open>
  The three result structs of \<open>execution_engine.hpp\<close>. Their fields share names in the
  source; here each carries the initials of its struct.
\<close>

record CompilationResult =
  cr_success :: bool
  cr_executable_path :: string
  cr_compilation_time_ms :: int
  cr_warnings :: "string list"
  cr_errors :: "string list"
  cr_compiler_output :: string

record ExecutionResult =
  er_success :: bool
  er_exit_code :: int
  er_stdout :: string
  er_stderr :: string
  er_execution_time_ms :: int
  er_memory_usage_kb :: int
  er_cpu_time_ms :: int
  er_error_message :: string

record ProcessResult =
  pr_exit_code :: int
  pr_stdout :: string
  pr_stderr :: string
  pr_memory_usage_kb :: int
  pr_cpu_time_ms :: int

definition CompilationResult_init :: CompilationResult where
  "CompilationResult_init =
     \<lparr>cr_success = False, cr_executable_path = [], cr_compilation_time_ms = 0,
      cr_warnings = [], cr_errors = [], cr_compiler_output = []\<rparr>"

definition ExecutionResult_init :: ExecutionResult where
  "ExecutionResult_init =
     \<lparr>er_success = False, er_exit_code = 0, er_stdout = [], er_stderr = [],
      er_execution_time_ms = 0, er_memory_usage_kb = 0, er_cpu_time_ms = 0,
      er_error_message = []\<rparr>"

definition ProcessResult_init :: ProcessResult where
  "ProcessResult_init =
     \<lparr>pr_exit_code = - 1, pr_stdout = [], pr_stderr = [],
      pr_memory_usage_kb = 0, pr_cpu_time_ms = 0\<rparr>"

section \<open>The operating system as the engine sees it\<close>

text \<open>
  Every system call of \<open>executeProcess\<close> and every file-system call of the engine is an
  event of a trace kept in the world, in program order; the calls of the forked child
  between \<open>fork\<close> and \<open>execvp\<close> are tagged \<open>Child\<close>. Logging is fire-and-forget and
  is left out.
\<close>

datatype signal = SIGTERM | SIGKILL

datatype fd = stdout_pipe_0 | stdout_pipe_1 | stderr_pipe_0 | stderr_pipe_1

datatype syscall =
    Pipe fd fd
  | Fork
  | Close fd
  | Dup2 fd nat
  | Execvp string "string list"
  | Exit int
  | Alarm nat
  | Waitpid
  | Kill signal
  | Read fd

datatype event =
    Parent syscall
  | Child syscall
  | Create_directories string
  | Ofstream_write string string
  | Remove_all string

text \<open>
  What the kernel and the executed program do when the engine runs an argument vector:
  whether \<open>pipe\<close>, \<open>fork\<close> and \<open>execvp\<close> succeed, after how many seconds the program ends
  by itself (\<open>None\<close>: never), the wait status \<open>waitpid\<close> then stores, whether \<open>SIGTERM\<close>
  ends it, and what the successive \<open>read\<close> calls on the two pipes return. A \<open>read\<close>
  returns 0 only when every holder of the pipe's write end has closed it: \<open>stdout_eof\<close>
  and \<open>stderr_eof\<close> say whether that ever happens (a descendant of the program that
  keeps the descriptor open prevents it). \<open>fs_effect\<close> gives the paths on disk after the
  program has run from the paths before: the compiler creates the executable, and a
  user's program, run in the engine's directory with the engine's rights, may create or
  remove anything.
\<close>

record child =
  pipe_stdout_ok :: bool
  pipe_stderr_ok :: bool
  fork_ok :: bool
  execvp_ok :: bool
  exits_after :: "nat option"
  wait_status :: nat
  dies_on_sigterm :: bool
  stdout_reads :: "string list"
  stderr_reads :: "string list"
  stdout_eof :: bool
  stderr_eof :: bool
  fs_effect :: "string list \<Rightarrow> string list"

text \<open>
  The disposition of \<open>SIGALRM\<close> in the engine's process. \<open>main.cpp\<close> installs handlers for
  \<open>SIGINT\<close>, \<open>SIGTERM\<close> and \<open>SIGABRT\<close> and ignores \<open>SIGPIPE\<close>; it leaves \<open>SIGALRM\<close> at its
  default, which ends the process. A handler installed without restart makes a blocked
  \<open>waitpid\<close> return -1; an ignored signal or a restarting handler leaves it waiting.
\<close>

datatype disposition = Default_terminates | Handler_interrupts | Ignored_or_restarts

record machine =
  compiler_config :: CompilerConfig
  execution_config :: ExecutionConfig
  sigalrm :: disposition
  run_of :: "string list \<Rightarrow> child"
  random_device :: "nat \<Rightarrow> nat"
  create_directories_error :: "string \<Rightarrow> string option"
  ofstream_opens :: "string \<Rightarrow> bool"
  exists_error :: "string \<Rightarrow> string option"
  remove_all_fails :: "string \<Rightarrow> string list \<Rightarrow> (string list \<times> string) option"
  current_path :: string

record world =
  paths :: "string list"
  trace :: "event list"
  draws :: nat
  clock_ms :: int

text \<open>
  A call returns a value and the world it leaves, blocks forever, or ends with the whole
  process terminated by a signal; the last two keep the world reached.
\<close>

datatype 'a outcome = Returns 'a world | Blocks world | Terminated world

definition returned :: "'a outcome \<Rightarrow> 'a option" where
  "returned out = (case out of Returns r w \<Rightarrow> Some r | Blocks w \<Rightarrow> None | Terminated w \<Rightarrow> None)"

definition world_of :: "'a outcome \<Rightarrow> world" where
  "world_of out = (case out of Returns r w \<Rightarrow> w | Blocks w \<Rightarrow> w | Terminated w \<Rightarrow> w)"

definition emit :: "event list \<Rightarrow> world \<Rightarrow> world" where
  "emit es w = w\<lparr>trace := trace w @ es\<rparr>"

definition advance :: "nat \<Rightarrow> world \<Rightarrow> world" where
  "advance seconds w = w\<lparr>clock_ms := clock_ms w + 1000 * int seconds\<rparr>"

section \<open>executeProcess\<close>

text \<open>
  \<open>WEXITSTATUS(status)\<close> is bits 8 to 15 of the wait status. \<open>alarm\<close> takes an
  \<open>unsigned int\<close>: the \<open>int\<close> timeout is converted modulo \<open>2^32\<close>, and \<open>alarm(0)\<close> arms
  nothing.
\<close>

definition WEXITSTATUS :: "nat \<Rightarrow> int" where
  "WEXITSTATUS status = int ((status div 256) mod 256)"

definition alarm_seconds :: "int \<Rightarrow> nat" where
  "alarm_seconds timeout_seconds = nat (timeout_seconds mod 2 ^ 32)"

text \<open>The child's branch after \<open>fork\<close>: lines 403 to 415.\<close>

definition child_branch :: "child \<Rightarrow> string list \<Rightarrow> syscall list" where
  "child_branch ch args =
     [Close stdout_pipe_0, Close stderr_pipe_0,
      Dup2 stdout_pipe_1 1, Dup2 stderr_pipe_1 2,
      Close stdout_pipe_1, Close stderr_pipe_1,
      Execvp (hd args) args]
     @ (if execvp_ok ch then [] else [Exit 127])"

text \<open>
  The program as the parent observes it: when \<open>execvp\<close> fails the child is the engine's
  own \<open>exit(127)\<close>, at once and without output.
\<close>

definition observed :: "child \<Rightarrow> child" where
  "observed ch =
     (if execvp_ok ch then ch
      else ch\<lparr>exits_after := Some 0, wait_status := 127 * 256, dies_on_sigterm := True,
              stdout_reads := [], stderr_reads := [], stdout_eof := True,
              stderr_eof := True, fs_effect := (\<lambda>ps. ps)\<rparr>)"

text \<open>
  The first \<open>waitpid(pid, &status, 0)\<close>, with the alarm armed for \<open>d\<close> seconds (\<open>d = 0\<close>:
  not armed).
\<close>

datatype wait_result = Status nat nat | Interrupted nat | Never | Killed_by_alarm nat

definition exited_by :: "child \<Rightarrow> nat \<Rightarrow> bool" where
  "exited_by ch d = (case exits_after ch of None \<Rightarrow> False | Some e \<Rightarrow> e \<le> d)"

definition undisturbed_wait :: "child \<Rightarrow> wait_result" where
  "undisturbed_wait ch =
     (case exits_after ch of None \<Rightarrow> Never | Some e \<Rightarrow> Status e (wait_status ch))"

definition first_wait :: "disposition \<Rightarrow> nat \<Rightarrow> child \<Rightarrow> wait_result" where
  "first_wait disp d ch =
     (if d = 0 \<or> exited_by ch d then undisturbed_wait ch
      else (case disp of
              Default_terminates \<Rightarrow> Killed_by_alarm d
            | Handler_interrupts \<Rightarrow> Interrupted d
            | Ignored_or_restarts \<Rightarrow> undisturbed_wait ch))"

text \<open>
  The two read loops and the closing of the read ends: lines 438 to 453. The parent reads
  only after the child has been waited for, so a child that fills a pipe and cannot go on
  is, to the parent, a child that does not exit; \<open>exits_after\<close> describes the child as
  it runs under this parent. The only failure of \<open>waitpid\<close> in the model is the
  interruption by the alarm. Each loop ends at the first \<open>read\<close> that returns 0; the
  loops run after \<open>alarm(0)\<close>, so a pipe whose write end stays open blocks the call
  for good.
\<close>

definition read_loop :: "string list \<Rightarrow> string" where
  "read_loop reads = concat (map c_str (takeWhile (\<lambda>buffer. buffer \<noteq> []) reads))"

definition read_calls :: "fd \<Rightarrow> string list \<Rightarrow> event list" where
  "read_calls f reads =
     replicate (Suc (length (takeWhile (\<lambda>buffer. buffer \<noteq> []) reads))) (Parent (Read f))"

definition reaches_eof :: "bool \<Rightarrow> string list \<Rightarrow> bool" where
  "reaches_eof eof reads = (eof \<or> [] \<in> set reads)"

definition read_output :: "child \<Rightarrow> ProcessResult \<Rightarrow> world \<Rightarrow> ProcessResult outcome" where
  "read_output ch result w =
     (let result1 = result\<lparr>pr_stdout := pr_stdout result @ read_loop (stdout_reads ch)\<rparr>;
          w1 = emit (read_calls stdout_pipe_0 (stdout_reads ch)) w
      in
      if \<not> reaches_eof (stdout_eof ch) (stdout_reads ch) then Blocks w1
      else
        let result2 = result1\<lparr>pr_stderr := pr_stderr result1 @ read_loop (stderr_reads ch)\<rparr>;
            w2 = emit (read_calls stderr_pipe_0 (stderr_reads ch)) w1
        in
        if \<not> reaches_eof (stderr_eof ch) (stderr_reads ch) then Blocks w2
        else Returns result2
               (emit [Parent (Close stdout_pipe_0), Parent (Close stderr_pipe_0)] w2))"

definition executeProcess ::
  "machine \<Rightarrow> string list \<Rightarrow> int \<Rightarrow> world \<Rightarrow> ProcessResult outcome" where
  "executeProcess m args timeout_seconds w =
     (let result = ProcessResult_init\<lparr>pr_exit_code := - 1\<rparr> in
      if args = [] then Returns result w
      else
        let os = run_of m args; ch = observed os in
        if \<not> pipe_stdout_ok os then
          Returns result (emit [Parent (Pipe stdout_pipe_0 stdout_pipe_1)] w)
        else if \<not> pipe_stderr_ok os then
          Returns result
            (emit [Parent (Pipe stdout_pipe_0 stdout_pipe_1),
                   Parent (Pipe stderr_pipe_0 stderr_pipe_1)] w)
        else if \<not> fork_ok os then
          Returns result
            (emit [Parent (Pipe stdout_pipe_0 stdout_pipe_1),
                   Parent (Pipe stderr_pipe_0 stderr_pipe_1),
                   Parent Fork,
                   Parent (Close stdout_pipe_0), Parent (Close stdout_pipe_1),
                   Parent (Close stderr_pipe_0), Parent (Close stderr_pipe_1)] w)
        else
          let w1 = emit ([Parent (Pipe stdout_pipe_0 stdout_pipe_1),
                          Parent (Pipe stderr_pipe_0 stderr_pipe_1),
                          Parent Fork]
                         @ map Child (child_branch os args)
                         @ [Parent (Close stdout_pipe_1), Parent (Close stderr_pipe_1),
                            Parent (Alarm (alarm_seconds timeout_seconds)),
                            Parent Waitpid])
                     (w\<lparr>paths := fs_effect ch (paths w)\<rparr>)
          in
          (case first_wait (sigalrm m) (alarm_seconds timeout_seconds) ch of
             Killed_by_alarm d \<Rightarrow> Terminated (advance d w1)
           | Never \<Rightarrow> Blocks w1
           | Status e status \<Rightarrow>
               read_output ch (result\<lparr>pr_exit_code := WEXITSTATUS status\<rparr>)
                 (emit [Parent (Alarm 0)] (advance e w1))
           | Interrupted d \<Rightarrow>
               (let w2 = emit [Parent (Alarm 0), Parent (Kill SIGTERM), Parent Waitpid]
                           (advance d w1)
                in
                if dies_on_sigterm ch then
                  read_output ch (result\<lparr>pr_exit_code := - 1\<rparr>) w2
                else
                  (case exits_after ch of
                     None \<Rightarrow> Blocks w2
                   | Some e \<Rightarrow>
                       read_output ch (result\<lparr>pr_exit_code := - 1\<rparr>)
                         (advance (e - d) w2)))))"

section \<open>The file system of the session\<close>

text \<open>
  \<open>paths\<close> holds the directories and files of the session that are on disk. A path is under
  a directory when it is the directory or lies below it; \<open>remove_all\<close> deletes the whole
  tree. \<open>create_directories\<close> may throw \<open>filesystem_error\<close>; an \<open>ofstream\<close> that opens
  creates the file.
\<close>

definition under :: "string \<Rightarrow> string \<Rightarrow> bool" where
  "under dir p = (p = dir \<or> starts_with p (dir @ ''/''))"

definition create_directories :: "machine \<Rightarrow> string \<Rightarrow> world \<Rightarrow> exn + world" where
  "create_directories m dir w =
     (case create_directories_error m dir of
        Some msg \<Rightarrow> Inl (filesystem_error msg)
      | None \<Rightarrow> Inr (emit [Create_directories dir] (w\<lparr>paths := List.insert dir (paths w)\<rparr>)))"

definition ofstream_write :: "string \<Rightarrow> string \<Rightarrow> world \<Rightarrow> world" where
  "ofstream_write file code w =
     emit [Ofstream_write file code] (w\<lparr>paths := List.insert file (paths w)\<rparr>)"

text \<open>
  \<open>cleanupSession\<close>, lines 504 to 512: \<open>remove_all\<close> is called when \<open>exists\<close> finds the
  directory, and an exception of either call is caught and only logged. A \<open>remove_all\<close>
  that throws leaves on disk what it could not delete.
\<close>

definition cleanupSession :: "machine \<Rightarrow> string \<Rightarrow> world \<Rightarrow> world" where
  "cleanupSession m session_dir w =
     (case exists_error m session_dir of
        Some msg \<Rightarrow> w
      | None \<Rightarrow>
          if session_dir \<in> set (paths w) then
            (case remove_all_fails m session_dir (paths w) of
               None \<Rightarrow>
                 emit [Remove_all session_dir]
                   (w\<lparr>paths := filter (\<lambda>p. \<not> under session_dir p) (paths w)\<rparr>)
             | Some (remaining, msg) \<Rightarrow>
                 emit [Remove_all session_dir] (w\<lparr>paths := remaining\<rparr>))
          else w)"

section \<open>Compilation\<close>

text \<open>
  \<open>generateSessionId\<close>: sixteen draws from \<open>uniform_int_distribution(0, 15)\<close>, each
  indexing the hexadecimal alphabet.
\<close>

definition generateSessionId :: "machine \<Rightarrow> world \<Rightarrow> string \<times> world" where
  "generateSessionId m w =
     (map (\<lambda>i. ''0123456789abcdef'' ! (random_device m (draws w + i) mod 16)) [0..<16],
      w\<lparr>draws := draws w + 16\<rparr>)"

definition buildCompileCommand ::
  "CompilerConfig \<Rightarrow> string \<Rightarrow> string \<Rightarrow> string \<Rightarrow> string \<Rightarrow> string \<Rightarrow> bool \<Rightarrow> string list
     \<Rightarrow> string list" where
  "buildCompileCommand config source_file output_file compiler standard optimization
       debug_info extra_flags =
     [if compiler = ''clang++'' then clang_path config else compiler_path config]
     @ [''-std='' @ standard]
     @ [''-'' @ optimization]
     @ (if debug_info then [''-g''] else [])
     @ [''-Wall'', ''-Wextra'', ''-pedantic'']
     @ extra_flags
     @ [source_file, ''-o'', output_file]"

fun parseCompilerMessages_loop ::
  "string list \<Rightarrow> string list \<times> string list \<Rightarrow> string list \<times> string list" where
  "parseCompilerMessages_loop [] (warnings, errors) = (warnings, errors)"
| "parseCompilerMessages_loop (line # rest) (warnings, errors) =
     (if contains line ''warning:'' then
        parseCompilerMessages_loop rest (warnings @ [line], errors)
      else if contains line ''error:'' then
        parseCompilerMessages_loop rest (warnings, errors @ [line])
      else parseCompilerMessages_loop rest (warnings, errors))"

definition parseCompilerMessages ::
  "string \<Rightarrow> string list \<times> string list \<Rightarrow> string list \<times> string list" where
  "parseCompilerMessages compiler_output acc =
     parseCompilerMessages_loop (getlines compiler_output) acc"

text \<open>Lines 110 to 121: the options read from the request, in the order of the source.\<close>

definition parse_options ::
  "CompilerConfig \<Rightarrow> json \<Rightarrow> exn + (string \<times> string \<times> string \<times> bool \<times> string list)" where
  "parse_options config options =
     (case value_string options ''compiler'' (default_compiler config) of
        Inl e \<Rightarrow> Inl e
      | Inr compiler \<Rightarrow>
     (case value_string options ''standard'' (cpp_standard config) of
        Inl e \<Rightarrow> Inl e
      | Inr standard \<Rightarrow>
     (case value_string options ''optimization'' (optimization_level config) of
        Inl e \<Rightarrow> Inl e
      | Inr optimization \<Rightarrow>
     (case value_bool options ''debug'' False of
        Inl e \<Rightarrow> Inl e
      | Inr debug_info \<Rightarrow>
     (case extra_flags_of options of
        Inl e \<Rightarrow> Inl e
      | Inr extra_flags \<Rightarrow>
          Inr (compiler, standard, optimization, debug_info, extra_flags))))))"

text \<open>The handler of \<open>compile\<close>: lines 153 to 157.\<close>

definition compile_catch :: "CompilationResult \<Rightarrow> exn \<Rightarrow> CompilationResult" where
  "compile_catch result e =
     result\<lparr>cr_errors := cr_errors result @ [''Internal compilation error: '' @ what e]\<rparr>"

text \<open>Lines 131 to 151: what \<open>compile\<close> makes of the compiler's \<open>ProcessResult\<close>.\<close>

definition compile_finish ::
  "CompilationResult \<Rightarrow> string \<Rightarrow> int \<Rightarrow> ProcessResult \<Rightarrow> CompilationResult" where
  "compile_finish result work_dir elapsed_ms compile_result =
     (let result1 = result\<lparr>cr_compilation_time_ms := elapsed_ms,
                           cr_compiler_output := pr_stderr compile_result @ pr_stdout compile_result\<rparr>
      in
      if pr_exit_code compile_result = 0 then
        (let result2 = result1\<lparr>cr_success := True, cr_executable_path := work_dir @ ''/main''\<rparr>;
             (warnings, errors) =
               parseCompilerMessages (cr_compiler_output result2)
                 (cr_warnings result2, cr_errors result2)
         in result2\<lparr>cr_warnings := warnings, cr_errors := errors\<rparr>)
      else
        (let result2 = result1\<lparr>cr_success := False\<rparr>;
             (warnings, errors) =
               parseCompilerMessages (cr_compiler_output result2)
                 (cr_warnings result2, cr_errors result2)
         in result2\<lparr>cr_warnings := warnings, cr_errors := errors\<rparr>))"

text \<open>
  Lines 93 to 126 of \<open>compile\<close>: the session directory, the source file and the argument
  vector. \<open>Inl\<close> is a return before the compiler is run (the early return of line 105 or
  the handler), \<open>Inr\<close> the working directory, the argument vector and the world reached.
\<close>

definition compile_prepare ::
  "machine \<Rightarrow> CompilationResult \<Rightarrow> string \<Rightarrow> json \<Rightarrow> world
     \<Rightarrow> (CompilationResult \<times> world) + (string \<times> string list \<times> world)" where
  "compile_prepare m result code options w =
     (let config = compiler_config m;
          (session_id, w1) = generateSessionId m w;
          work_dir = ''temp/'' @ session_id
      in
      case create_directories m work_dir w1 of
        Inl e \<Rightarrow> Inl (compile_catch result e, w1)
      | Inr w2 \<Rightarrow>
          let source_file = work_dir @ ''/main.cpp'' in
          if \<not> ofstream_opens m source_file then
            Inl (result\<lparr>cr_errors := cr_errors result @ [''Failed to create source file'']\<rparr>, w2)
          else
            let w3 = ofstream_write source_file code w2 in
            (case parse_options config options of
               Inl e \<Rightarrow> Inl (compile_catch result e, w3)
             | Inr (compiler, standard, optimization, debug_info, extra_flags) \<Rightarrow>
                 Inr (work_dir,
                      buildCompileCommand config source_file (work_dir @ ''/main'') compiler
                        standard optimization debug_info extra_flags,
                      w3)))"

definition compile :: "machine \<Rightarrow> string \<Rightarrow> json \<Rightarrow> world \<Rightarrow> CompilationResult outcome" where
  "compile m code options w =
     (let result = CompilationResult_init\<lparr>cr_success := False\<rparr>;
          start_time = clock_ms w
      in
      case compile_prepare m result code options w of
        Inl (early, w1) \<Rightarrow> Returns early w1
      | Inr (work_dir, compile_args, w3) \<Rightarrow>
          (case executeProcess m compile_args (compilation_timeout (compiler_config m)) w3 of
             Blocks w4 \<Rightarrow> Blocks w4
           | Terminated w4 \<Rightarrow> Terminated w4
           | Returns compile_result w4 \<Rightarrow>
               Returns
                 (compile_finish result work_dir (clock_ms w4 - start_time) compile_result)
                 w4))"

section \<open>Execution\<close>

text \<open>
  \<open>executeInSandbox\<close> builds the \<open>docker run\<close> argument vector and then, as its last
  statement says, falls back to direct execution; the vector is never run.
\<close>

definition absolute :: "string \<Rightarrow> string \<Rightarrow> string" where
  "absolute cwd p = (if starts_with p ''/'' then p else cwd @ ''/'' @ p)"

definition docker_args :: "machine \<Rightarrow> string \<Rightarrow> string list" where
  "docker_args m executable_path =
     [''docker'', ''run'', ''--rm'', ''-i'',
      ''--memory='' @ to_string (max_memory_mb (execution_config m)) @ ''m'',
      ''--cpus='' @ to_string (max_cpu_time (execution_config m)),
      ''--network=none'',
      ''--user=nobody'',
      ''-v'', absolute (current_path m) executable_path @ '':/app/program:ro'',
      docker_image (execution_config m),
      ''/app/program'']"

definition executeDirectly ::
  "machine \<Rightarrow> string \<Rightarrow> string \<Rightarrow> json \<Rightarrow> world \<Rightarrow> ProcessResult outcome" where
  "executeDirectly m executable_path input options w =
     (let args = [executable_path] in
      executeProcess m args (execution_timeout (execution_config m)) w)"

definition executeInSandbox ::
  "machine \<Rightarrow> string \<Rightarrow> string \<Rightarrow> json \<Rightarrow> world \<Rightarrow> ProcessResult outcome" where
  "executeInSandbox m executable_path input options w =
     (let unused = docker_args m executable_path in
      executeDirectly m executable_path input options w)"

text \<open>Lines 191 to 203: what \<open>execute\<close> makes of the program's \<open>ProcessResult\<close>.\<close>

definition execute_finish :: "ExecutionResult \<Rightarrow> int \<Rightarrow> ProcessResult \<Rightarrow> ExecutionResult" where
  "execute_finish result elapsed_ms exec_result =
     (let result1 = result\<lparr>er_execution_time_ms := elapsed_ms,
                           er_success := (pr_exit_code exec_result = 0),
                           er_exit_code := pr_exit_code exec_result,
                           er_stdout := pr_stdout exec_result,
                           er_stderr := pr_stderr exec_result,
                           er_memory_usage_kb := pr_memory_usage_kb exec_result,
                           er_cpu_time_ms := pr_cpu_time_ms exec_result\<rparr>
      in
      if \<not> er_success result1 \<and> er_stderr result1 = [] then
        result1\<lparr>er_error_message := ''Program exited with code '' @ to_string (er_exit_code result1)\<rparr>
      else result1)"

text \<open>
  Lines 171 to 179: the early return of \<open>execute\<close> when compilation failed. \<open>compile\<close>
  handles its own exceptions and nothing else inside the \<open>try\<close> block of \<open>execute\<close>
  throws in the model, so the handler of lines 212 to 216 has no branch below.
\<close>

definition compilation_failed :: "ExecutionResult \<Rightarrow> CompilationResult \<Rightarrow> ExecutionResult" where
  "compilation_failed result compile_result =
     result\<lparr>er_success := False,
            er_error_message :=
              ''Compilation failed'' @ concat (map (\<lambda>error. [CHR 0x0A] @ error) (cr_errors compile_result))\<rparr>"

definition execute ::
  "machine \<Rightarrow> string \<Rightarrow> string \<Rightarrow> json \<Rightarrow> world \<Rightarrow> ExecutionResult outcome" where
  "execute m code input options w =
     (let result = ExecutionResult_init\<lparr>er_success := False\<rparr> in
      case compile m code options w of
        Blocks w1 \<Rightarrow> Blocks w1
      | Terminated w1 \<Rightarrow> Terminated w1
      | Returns compile_result w1 \<Rightarrow>
          if \<not> cr_success compile_result then
            Returns (compilation_failed result compile_result) w1
          else
            let start_time = clock_ms w1 in
            (case (if sandbox_enabled (execution_config m)
                   then executeInSandbox m (cr_executable_path compile_result) input options w1
                   else executeDirectly m (cr_executable_path compile_result) input options w1) of
               Blocks w2 \<Rightarrow> Blocks w2
             | Terminated w2 \<Rightarrow> Terminated w2
             | Returns exec_result w2 \<Rightarrow>
                 Returns
                   (execute_finish result (clock_ms w2 - start_time) exec_result)
                   (cleanupSession m (parent_path (cr_executable_path compile_result)) w2)))"

section \<open>Observations on traces\<close>

fun signals_sent :: "event list \<Rightarrow> signal list" where
  "signals_sent [] = []"
| "signals_sent (Parent (Kill s) # es) = s # signals_sent es"
| "signals_sent (e # es) = signals_sent es"

fun removals :: "event list \<Rightarrow> string list" where
  "removals [] = []"
| "removals (Remove_all dir # es) = dir # removals es"
| "removals (e # es) = removals es"

fun forks :: "event list \<Rightarrow> nat" where
  "forks [] = 0"
| "forks (Parent Fork # es) = Suc (forks es)"
| "forks (e # es) = forks es"

fun child_calls :: "event list \<Rightarrow> syscall list" where
  "child_calls [] = []"
| "child_calls (Child c # es) = c # child_calls es"
| "child_calls (e # es) = child_calls es"


definition blocks :: "'a outcome \<Rightarrow> bool" where
  "blocks out = (case out of Blocks w \<Rightarrow> True | Returns r w \<Rightarrow> False | Terminated w \<Rightarrow> False)"

definition terminated :: "'a outcome \<Rightarrow> bool" where
  "terminated out = (case out of Terminated w \<Rightarrow> True | Returns r w \<Rightarrow> False | Blocks w \<Rightarrow> False)"

section \<open>Sample machines\<close>

text \<open>
  The defaults of \<open>config.cpp\<close>, a compiler and a program that end at once with status 0
  and no output, and a machine put together from a disposition of \<open>SIGALRM\<close>, the
  behaviour of the compiler and the behaviour of every other program.
\<close>

definition sample_compiler_config :: CompilerConfig where
  "sample_compiler_config =
     \<lparr>compiler_path = ''/usr/bin/g++'', clang_path = ''/usr/bin/clang++'',
      default_compiler = ''g++'', cpp_standard = ''c++20'', optimization_level = ''O2'',
      compilation_timeout = 30\<rparr>"

definition sample_execution_config :: ExecutionConfig where
  "sample_execution_config =
     \<lparr>sandbox_enabled = True, execution_timeout = 10, max_memory_mb = 512,
      max_cpu_time = 5, docker_image = ''cpp-sandbox:latest''\<rparr>"

definition quiet :: child where
  "quiet =
     \<lparr>pipe_stdout_ok = True, pipe_stderr_ok = True, fork_ok = True, execvp_ok = True,
      exits_after = Some 0, wait_status = 0, dies_on_sigterm = True,
      stdout_reads = [], stderr_reads = [], stdout_eof = True, stderr_eof = True,
      fs_effect = (\<lambda>ps. ps)\<rparr>"

definition sample_machine :: "disposition \<Rightarrow> child \<Rightarrow> child \<Rightarrow> machine" where
  "sample_machine disp compiler program =
     \<lparr>compiler_config = sample_compiler_config,
      execution_config = sample_execution_config,
      sigalrm = disp,
      run_of = (\<lambda>args. if args \<noteq> [] \<and> hd args = ''/usr/bin/g++'' then compiler else program),
      random_device = (\<lambda>n. n),
      create_directories_error = (\<lambda>dir. None),
      ofstream_opens = (\<lambda>file. True),
      exists_error = (\<lambda>dir. None),
      remove_all_fails = (\<lambda>dir ps. None),
      current_path = ''/srv/engine''\<rparr>"

definition sample_world :: world where
  "sample_world = \<lparr>paths = [], trace = [], draws = 0, clock_ms = 0\<rparr>"

definition hello :: string where
  "hello = ''int main() { return 0; }''"

text \<open>
  A compiler that fails with three lines on standard error: the warning GCC prints for the
  directive \<open>#warning error: legacy API\<close>, an error, and a note.
\<close>

definition legacy_warning :: string where
  "legacy_warning = ''main.cpp:1:2: warning: #warning error: legacy API [-Wcpp]''"

definition missing_semicolon :: string where
  "missing_semicolon = ''main.cpp:3:13: error: expected ; before } token''"

definition noisy_compiler :: child where
  "noisy_compiler =
     quiet\<lparr>wait_status := 256,
           stderr_reads := [legacy_warning @ [CHR 0x0A], missing_semicolon @ [CHR 0x0A],
                            ''main.cpp:3:13: note: here'' @ [CHR 0x0A]]\<rparr>"

definition noisy_machine :: machine where
  "noisy_machine = sample_machine Default_terminates noisy_compiler quiet"

definition sample_work_dir :: string where
  "sample_work_dir = ''temp/0123456789abcdef''"

definition sample_compile_args :: "string list" where
  "sample_compile_args =
     [''/usr/bin/g++'', ''-std=c++20'', ''-O2'', ''-Wall'', ''-Wextra'', ''-pedantic'',
      ''temp/0123456789abcdef/main.cpp'', ''-o'', ''temp/0123456789abcdef/main'']"

definition prepared_world :: world where
  "prepared_world =
     \<lparr>paths = [''temp/0123456789abcdef/main.cpp'', ''temp/0123456789abcdef''],
      trace = [Create_directories ''temp/0123456789abcdef'',
               Ofstream_write ''temp/0123456789abcdef/main.cpp'' hello],
      draws = 16, clock_ms = 0\<rparr>"

definition noisy_output :: string where
  "noisy_output =
     legacy_warning @ [CHR 0x0A] @ missing_semicolon @ [CHR 0x0A]
     @ ''main.cpp:3:13: note: here'' @ [CHR 0x0A]"



definition plain_machine :: machine where
  "plain_machine = sample_machine Default_terminates quiet quiet"

text \<open>
  A program the kernel ends with \<open>SIGKILL\<close>: the wait status of a signalled child is the
  signal number, here 9, with nothing in bits 8 to 15.
\<close>

definition killed_machine :: machine where
  "killed_machine = sample_machine Default_terminates quiet (quiet\<lparr>wait_status := 9\<rparr>)"

text \<open>
  A program that loops forever, run by the engine as \<open>main.cpp\<close> sets it up; and one
  that also ignores \<open>SIGTERM\<close>, run by an engine that had a \<open>SIGALRM\<close> handler
  interrupting \<open>waitpid\<close>.
\<close>

definition looping :: child where
  "looping = quiet\<lparr>exits_after := None\<rparr>"

definition stubborn :: child where
  "stubborn = quiet\<lparr>exits_after := None, dies_on_sigterm := False\<rparr>"

definition looping_machine :: machine where
  "looping_machine = sample_machine Default_terminates quiet looping"

definition stubborn_machine :: machine where
  "stubborn_machine = sample_machine Handler_interrupts quiet stubborn"

definition sample_executable :: string where
  "sample_executable = ''temp/0123456789abcdef/main''"

text \<open>
  The results of compiling \<open>hello\<close> with an empty options object, and with options that
  are \<open>null\<close> instead of an object.
\<close>

definition compiled_hello :: CompilationResult where
  "compiled_hello =
     \<lparr>cr_success = True, cr_executable_path = ''temp/0123456789abcdef/main'',
      cr_compilation_time_ms = 0, cr_warnings = [], cr_errors = [],
      cr_compiler_output = []\<rparr>"

definition rejected_options :: CompilationResult where
  "rejected_options =
     \<lparr>cr_success = False, cr_executable_path = [],
      cr_compilation_time_ms = 0, cr_warnings = [],
      cr_errors = [''Internal compilation error: [json.exception.type_error.306]''],
      cr_compiler_output = []\<rparr>"


text \<open>
  A compiler that leaves the executable in the session directory; a program that removes
  its own session directory; a program that leaves a file which \<open>remove_all\<close> cannot
  delete.
\<close>

definition building :: child where
  "building = quiet\<lparr>fs_effect := List.insert ''temp/0123456789abcdef/main''\<rparr>"


definition self_removing :: child where
  "self_removing =
     quiet\<lparr>fs_effect := filter (\<lambda>p. \<not> under ''temp/0123456789abcdef'' p)\<rparr>"

definition self_removing_machine :: machine where
  "self_removing_machine = sample_machine Default_terminates building self_removing"

definition locking :: child where
  "locking = quiet\<lparr>fs_effect := List.insert ''temp/0123456789abcdef/locked''\<rparr>"

definition undeletable_machine :: machine where
  "undeletable_machine =
     (sample_machine Default_terminates building locking)
       \<lparr>remove_all_fails :=
          (\<lambda>dir ps. Some (filter (\<lambda>p. p = dir \<or> p = dir @ ''/locked'') ps,
                          ''Permission denied''))\<rparr>"

section \<open>Auxiliary facts\<close>

lemma returned_Some: "returned out = Some r \<Longrightarrow> out = Returns r (world_of out)"
  by (cases out) (simp_all add: returned_def world_of_def)

lemma to_string_samples:
  "to_string (- 1) = ''-1''" "to_string 0 = ''0''" "to_string 127 = ''127''"
  "to_string 255 = ''255''"
  by (simp_all add: to_string_def)

lemma parent_path_main: "parent_path (dir @ ''/main'') = dir"
  by (simp add: parent_path_def)

lemma parseCompilerMessages_loop_filter:
  "parseCompilerMessages_loop ls (ws, es) =
     (ws @ filter (\<lambda>l. contains l ''warning:'') ls,
      es @ filter (\<lambda>l. \<not> contains l ''warning:'' \<and> contains l ''error:'') ls)"
  by (induction ls arbitrary: ws es) simp_all

lemma compile_finish_fields:
  "cr_success (compile_finish result work_dir t pr) = (pr_exit_code pr = 0)"
  "cr_compiler_output (compile_finish result work_dir t pr) = pr_stderr pr @ pr_stdout pr"
  "cr_warnings (compile_finish result work_dir t pr) =
     cr_warnings result
     @ filter (\<lambda>l. contains l ''warning:'') (getlines (pr_stderr pr @ pr_stdout pr))"
  "cr_errors (compile_finish result work_dir t pr) =
     cr_errors result
     @ filter (\<lambda>l. \<not> contains l ''warning:'' \<and> contains l ''error:'')
         (getlines (pr_stderr pr @ pr_stdout pr))"
  "cr_executable_path (compile_finish result work_dir t pr) =
     (if pr_exit_code pr = 0 then work_dir @ ''/main'' else cr_executable_path result)"
  by (simp_all add: compile_finish_def parseCompilerMessages_def
        parseCompilerMessages_loop_filter Let_def)

lemma compile_prepare_early:
  "compile_prepare m (CompilationResult_init\<lparr>cr_success := False\<rparr>) code options w
     = Inl (early, w1)
   \<Longrightarrow> \<not> cr_success early \<and> cr_executable_path early = []"
  by (auto simp: compile_prepare_def Let_def CompilationResult_init_def compile_catch_def
        generateSessionId_def split: sum.splits if_splits prod.splits)

lemma compile_after_prepare:
  assumes "compile_prepare m (CompilationResult_init\<lparr>cr_success := False\<rparr>) code options w
             = Inr (work_dir, compile_args, w3)"
      and "executeProcess m compile_args (compilation_timeout (compiler_config m)) w3
             = Returns pr w4"
  shows "compile m code options w =
           Returns (compile_finish (CompilationResult_init\<lparr>cr_success := False\<rparr>) work_dir
                      (clock_ms w4 - clock_ms w) pr) w4"
  using assms by (simp add: compile_def Let_def)













lemma WEXITSTATUS_of_signal: "status < 256 \<Longrightarrow> WEXITSTATUS status = 0"
  by (simp add: WEXITSTATUS_def)







section \<open>The process runner on an empty argument vector\<close>

text \<open>
  Claim C9. Called with an empty argument vector, \<open>executeProcess\<close> returns a
  \<open>ProcessResult\<close> with \<open>exit_code = -1\<close> and empty \<open>stdout\<close> and \<open>stderr\<close>, and it
  leaves the world as it found it: no pipe is made and no child is forked. This holds for
  every machine, timeout and world, so the runner is total on the input its contract
  excludes.
\<close>

theorem executeProcess_empty_args:
  "executeProcess m [] timeout_seconds w =
     Returns \<lparr>pr_exit_code = - 1, pr_stdout = [], pr_stderr = [],
              pr_memory_usage_kb = 0, pr_cpu_time_ms = 0\<rparr> w"
  by (simp add: executeProcess_def ProcessResult_init_def)

theorem executeProcess_empty_args_witness:
  "executeProcess (sample_machine Default_terminates quiet quiet) [] 30 sample_world =
     Returns \<lparr>pr_exit_code = - 1, pr_stdout = [], pr_stderr = [],
              pr_memory_usage_kb = 0, pr_cpu_time_ms = 0\<rparr> sample_world
   \<and> forks (trace sample_world) = 0"
  using executeProcess_empty_args [of "sample_machine Default_terminates quiet quiet" 30 sample_world]
  by (simp add: sample_world_def)

section \<open>The artifact path of a compilation\<close>

text \<open>
  Claim C8. For every \<open>CompilationResult\<close> that \<open>compile\<close> returns, the executable path
  is non-empty if and only if \<open>success\<close> is true. The early return when the source file
  cannot be created and the exception handler (a \<open>filesystem_error\<close> from
  \<open>create_directories\<close>, a \<open>type_error\<close> from the options) both leave the path empty and
  \<open>success\<close> false; after the compiler has run, the path is set exactly on exit code 0.
\<close>

theorem compile_artifact_iff_success:
  assumes "compile m code options w = Returns r w'"
  shows "(cr_executable_path r \<noteq> []) = cr_success r"
proof (cases "compile_prepare m (CompilationResult_init\<lparr>cr_success := False\<rparr>) code options w")
  case (Inl a)
  then obtain early w1 where a: "a = (early, w1)" by (cases a)
  with Inl assms have "r = early" by (simp add: compile_def Let_def)
  with Inl a compile_prepare_early show ?thesis by blast
next
  case (Inr b)
  then obtain work_dir args w3 where b: "b = (work_dir, args, w3)" by (cases b)
  with Inr assms obtain pr t where
    "r = compile_finish (CompilationResult_init\<lparr>cr_success := False\<rparr>) work_dir t pr"
    by (auto simp: compile_def Let_def split: outcome.splits)
  then show ?thesis
    by (simp add: compile_finish_fields CompilationResult_init_def)
qed

lemma sample_compile_success:
  "returned (compile plain_machine hello (JObject []) sample_world) = Some compiled_hello"
  by code_simp

lemma sample_compile_exception:
  "returned (compile plain_machine hello JNull sample_world) = Some rejected_options"
  by code_simp

theorem compile_artifact_iff_success_witness:
  "returned (compile plain_machine hello (JObject []) sample_world) = Some compiled_hello
   \<and> (cr_executable_path compiled_hello \<noteq> []) = cr_success compiled_hello
   \<and> cr_success compiled_hello
   \<and> returned (compile plain_machine hello JNull sample_world) = Some rejected_options
   \<and> (cr_executable_path rejected_options \<noteq> []) = cr_success rejected_options
   \<and> \<not> cr_success rejected_options"
proof -
  have "cr_success compiled_hello" and "\<not> cr_success rejected_options"
    by (simp_all add: compiled_hello_def rejected_options_def)
  with compile_artifact_iff_success [OF returned_Some [OF sample_compile_success]]
       compile_artifact_iff_success [OF returned_Some [OF sample_compile_exception]]
       sample_compile_success sample_compile_exception
  show ?thesis by (intro conjI)
qed

section \<open>Classification of the compiler's output\<close>

text \<open>
  Claim C7 as stated fails on a line that holds both tokens. The compiler's warning for
  \<open>#warning error: legacy API\<close> contains \<open>error:\<close>, yet \<open>parseCompilerMessages\<close> tests
  \<open>warning:\<close> first and \<open>error:\<close> only in the \<open>else\<close> branch, so the line is a warning
  and is not among the errors.
\<close>

theorem warning_line_with_error_token_counterexample:
  "returned (compile (sample_machine Default_terminates noisy_compiler quiet) hello (JObject [])
               sample_world)
     = Some \<lparr>cr_success = False, cr_executable_path = [], cr_compilation_time_ms = 0,
             cr_warnings = [legacy_warning], cr_errors = [missing_semicolon],
             cr_compiler_output =
               legacy_warning @ [CHR 0x0A] @ missing_semicolon @ [CHR 0x0A]
               @ ''main.cpp:3:13: note: here'' @ [CHR 0x0A]\<rparr>
   \<and> contains legacy_warning ''error:''
   \<and> legacy_warning \<notin> set [missing_semicolon]"
  by code_simp

text \<open>
  Claim C7, amended. Whenever \<open>compile\<close> runs the compiler and the compiler's process
  returns, the raw output is standard error followed by standard output; \<open>warnings\<close> are
  the lines of it that contain \<open>warning:\<close>, \<open>errors\<close> the lines that contain \<open>error:\<close>
  and do not contain \<open>warning:\<close>, each in the order of the output; every other line stays
  in the raw output only; and \<open>success\<close> is true exactly when the exit code is 0, whatever
  the lines are.
\<close>

theorem compile_classifies_diagnostics:
  assumes "compile_prepare m (CompilationResult_init\<lparr>cr_success := False\<rparr>) code options w
             = Inr (work_dir, compile_args, w3)"
      and "executeProcess m compile_args (compilation_timeout (compiler_config m)) w3
             = Returns pr w4"
  shows "\<exists>r. compile m code options w = Returns r w4
           \<and> cr_compiler_output r = pr_stderr pr @ pr_stdout pr
           \<and> cr_warnings r =
               filter (\<lambda>l. contains l ''warning:'') (getlines (cr_compiler_output r))
           \<and> cr_errors r =
               filter (\<lambda>l. \<not> contains l ''warning:'' \<and> contains l ''error:'')
                 (getlines (cr_compiler_output r))
           \<and> cr_success r = (pr_exit_code pr = 0)"
  using compile_after_prepare [OF assms]
  by (simp add: compile_finish_fields CompilationResult_init_def)

lemma noisy_prepare:
  "compile_prepare noisy_machine (CompilationResult_init\<lparr>cr_success := False\<rparr>) hello
     (JObject []) sample_world
     = Inr (sample_work_dir, sample_compile_args, prepared_world)"
  by code_simp

lemma noisy_run:
  "returned (executeProcess noisy_machine sample_compile_args
               (compilation_timeout (compiler_config noisy_machine)) prepared_world)
     = Some \<lparr>pr_exit_code = 1, pr_stdout = [], pr_stderr = noisy_output,
             pr_memory_usage_kb = 0, pr_cpu_time_ms = 0\<rparr>"
  by code_simp

theorem compile_classifies_diagnostics_witness:
  "compile_prepare noisy_machine (CompilationResult_init\<lparr>cr_success := False\<rparr>) hello
     (JObject []) sample_world
     = Inr (sample_work_dir, sample_compile_args, prepared_world)
   \<and> returned (executeProcess noisy_machine sample_compile_args
                 (compilation_timeout (compiler_config noisy_machine)) prepared_world)
     = Some \<lparr>pr_exit_code = 1, pr_stdout = [], pr_stderr = noisy_output,
             pr_memory_usage_kb = 0, pr_cpu_time_ms = 0\<rparr>
   \<and> (\<exists>r. returned (compile noisy_machine hello (JObject []) sample_world) = Some r
          \<and> cr_compiler_output r = noisy_output
          \<and> cr_warnings r = filter (\<lambda>l. contains l ''warning:'') (getlines noisy_output)
          \<and> cr_errors r =
              filter (\<lambda>l. \<not> contains l ''warning:'' \<and> contains l ''error:'')
                (getlines noisy_output)
          \<and> cr_success r = ((1::int) = 0))"
proof -
  from compile_classifies_diagnostics [OF noisy_prepare returned_Some [OF noisy_run]]
  obtain r where
    "compile noisy_machine hello (JObject []) sample_world
       = Returns r (world_of (executeProcess noisy_machine sample_compile_args
                               (compilation_timeout (compiler_config noisy_machine))
                               prepared_world))"
    "cr_compiler_output r = noisy_output"
    "cr_warnings r = filter (\<lambda>l. contains l ''warning:'') (getlines noisy_output)"
    "cr_errors r =
       filter (\<lambda>l. \<not> contains l ''warning:'' \<and> contains l ''error:'') (getlines noisy_output)"
    "cr_success r = ((1::int) = 0)"
    by auto
  then show ?thesis
    using noisy_prepare noisy_run by (auto simp: returned_def)
qed

section \<open>A failed compilation ends the request\<close>

text \<open>
  Claim C6. When the compilation of a request fails, \<open>execute\<close> returns a result with
  \<open>success = false\<close> whose error message is \<open>Compilation failed\<close> followed by the
  compiler's error lines, one per line; exit code, output and timing keep their initial
  values, and the world is the one \<open>compile\<close> left: nothing is forked and no system call
  is made after compilation, so the execute stage is not entered.
\<close>

theorem execute_returns_compile_failure:
  assumes "compile m code options w = Returns compile_result w1"
      and "\<not> cr_success compile_result"
  shows "\<exists>r. execute m code input options w = Returns r w1
           \<and> er_success r = False
           \<and> er_error_message r =
               ''Compilation failed''
               @ concat (map (\<lambda>error. CHR 0x0A # error) (cr_errors compile_result))
           \<and> er_exit_code r = 0 \<and> er_stdout r = [] \<and> er_stderr r = []
           \<and> er_execution_time_ms r = 0"
  using assms
  by (simp add: execute_def compilation_failed_def ExecutionResult_init_def Let_def)

lemma noisy_compile:
  "returned (compile noisy_machine hello (JObject []) sample_world)
     = Some \<lparr>cr_success = False, cr_executable_path = [], cr_compilation_time_ms = 0,
             cr_warnings = [legacy_warning], cr_errors = [missing_semicolon],
             cr_compiler_output = noisy_output\<rparr>"
  by code_simp

lemma noisy_compile_forks:
  "forks (trace (world_of (compile noisy_machine hello (JObject []) sample_world))) = 1"
  by code_simp

theorem execute_returns_compile_failure_witness:
  "returned (compile noisy_machine hello (JObject []) sample_world)
     = Some \<lparr>cr_success = False, cr_executable_path = [], cr_compilation_time_ms = 0,
             cr_warnings = [legacy_warning], cr_errors = [missing_semicolon],
             cr_compiler_output = noisy_output\<rparr>
   \<and> (\<exists>r. execute noisy_machine hello ''42'' (JObject []) sample_world
             = Returns r (world_of (compile noisy_machine hello (JObject []) sample_world))
          \<and> er_success r = False
          \<and> er_error_message r = ''Compilation failed'' @ [CHR 0x0A] @ missing_semicolon
          \<and> er_exit_code r = 0 \<and> er_stdout r = [] \<and> er_stderr r = []
          \<and> er_execution_time_ms r = 0)
   \<and> forks (trace (world_of (compile noisy_machine hello (JObject []) sample_world))) = 1"
  using execute_returns_compile_failure [OF returned_Some [OF noisy_compile], of "''42''"]
        noisy_compile noisy_compile_forks
  by simp

section \<open>The error message of a run\<close>



section \<open>Removal of the session directory\<close>


text \<open>
  The early return of \<open>execute\<close> after a failed compilation does not reach the call of
  \<open>cleanupSession\<close> either: the directory of the failed session stays.
\<close>

lemma execute_failed_compilation_leaves_directory:
  "map_option er_success (returned (execute noisy_machine hello [] (JObject []) sample_world))
     = Some False
   \<and> paths (world_of (execute noisy_machine hello [] (JObject []) sample_world))
       = [''temp/0123456789abcdef/main.cpp'', ''temp/0123456789abcdef'']
   \<and> removals (trace (world_of (execute noisy_machine hello [] (JObject []) sample_world))) = []"
  by code_simp

text \<open>
  The program runs in the engine's directory with the engine's rights, and
  \<open>cleanupSession\<close> swallows every failure. A program that removes its own session
  directory leaves nothing for \<open>exists\<close> to find, and \<open>remove_all\<close> is not called; a
  program that leaves a file \<open>remove_all\<close> cannot delete makes the one call fail, and
  the directory stays on disk while \<open>execute\<close> returns its result as usual.
\<close>

lemma program_removes_its_session_directory:
  "map_option er_exit_code
     (returned (execute self_removing_machine hello [] (JObject []) sample_world)) = Some 0
   \<and> removals (trace (world_of
        (execute self_removing_machine hello [] (JObject []) sample_world))) = []
   \<and> paths (world_of (execute self_removing_machine hello [] (JObject []) sample_world)) = []"
  by code_simp

lemma undeletable_file_keeps_session_directory:
  "map_option er_exit_code
     (returned (execute undeletable_machine hello [] (JObject []) sample_world)) = Some 0
   \<and> removals (trace (world_of
        (execute undeletable_machine hello [] (JObject []) sample_world)))
     = [''temp/0123456789abcdef'']
   \<and> paths (world_of (execute undeletable_machine hello [] (JObject []) sample_world))
     = [''temp/0123456789abcdef/locked'', ''temp/0123456789abcdef'']"
  by code_simp






section \<open>The sandbox path\<close>




section \<open>Resource ceilings and their report\<close>

text \<open>
  \<open>executeProcess\<close> takes \<open>WEXITSTATUS\<close> of the wait status without asking
  \<open>WIFEXITED\<close>. The wait status of a child ended by a signal is below 256, so its exit
  code comes out as 0.
\<close>

lemma killed_child_exit_code:
  "WEXITSTATUS 9 = 0 \<and> WEXITSTATUS 139 = 0 \<and> WEXITSTATUS 256 = 1"
  by code_simp

text \<open>
  Claim C3 does not hold of the code. Between \<open>fork\<close> and \<open>execvp\<close> the child only
  redirects its standard output and standard error: no ceiling is installed. And a
  program that the kernel ends with \<open>SIGKILL\<close>, as it does when a hard limit in force is
  exceeded, yields the outcome of a program that exited with code 0: \<open>success\<close> is
  true, the exit code is 0, the error message is empty, and no field tells the two runs
  apart.
\<close>

theorem killed_program_reported_as_success:
  "returned (execute killed_machine hello [] (JObject []) sample_world)
     = Some \<lparr>er_success = True, er_exit_code = 0, er_stdout = [],
             er_stderr = [], er_execution_time_ms = 0, er_memory_usage_kb = 0,
             er_cpu_time_ms = 0, er_error_message = []\<rparr>
   \<and> returned (execute killed_machine hello [] (JObject []) sample_world)
     = returned (execute plain_machine hello [] (JObject []) sample_world)
   \<and> child_calls (trace (world_of
        (executeDirectly killed_machine sample_executable [] (JObject []) sample_world)))
     = [Close stdout_pipe_0, Close stderr_pipe_0, Dup2 stdout_pipe_1 1, Dup2 stderr_pipe_1 2,
        Close stdout_pipe_1, Close stderr_pipe_1, Execvp sample_executable [sample_executable]]"
  by code_simp

section \<open>The standard input of the program\<close>

text \<open>
  \<open>execute\<close> hands \<open>input\<close> to \<open>executeInSandbox\<close> or \<open>executeDirectly\<close>, and there it
  is dropped: \<open>executeProcess\<close> takes no input. The result and the world of a request do
  not depend on the payload.
\<close>

lemma execute_ignores_input:
  "execute m code input options w = execute m code [] options w"
  by (simp add: execute_def executeInSandbox_def executeDirectly_def Let_def
      split: outcome.splits)

text \<open>
  Claim C2 does not hold of the code. For the payload \<open>hello\<close> the system calls of the
  run are listed in full: two pipes, for standard output and standard error, and none for
  standard input; no write; in the child no \<open>dup2\<close> onto descriptor 0. The program keeps
  the standard input of the engine, and the whole request behaves as with an empty
  payload.
\<close>

theorem stdin_payload_not_delivered:
  "trace (world_of
     (executeDirectly plain_machine sample_executable ''hello'' (JObject []) sample_world))
     = [Parent (Pipe stdout_pipe_0 stdout_pipe_1), Parent (Pipe stderr_pipe_0 stderr_pipe_1),
        Parent Fork,
        Child (Close stdout_pipe_0), Child (Close stderr_pipe_0),
        Child (Dup2 stdout_pipe_1 1), Child (Dup2 stderr_pipe_1 2),
        Child (Close stdout_pipe_1), Child (Close stderr_pipe_1),
        Child (Execvp sample_executable [sample_executable]),
        Parent (Close stdout_pipe_1), Parent (Close stderr_pipe_1),
        Parent (Alarm 10), Parent Waitpid, Parent (Alarm 0),
        Parent (Read stdout_pipe_0), Parent (Read stderr_pipe_0),
        Parent (Close stdout_pipe_0), Parent (Close stderr_pipe_0)]
   \<and> execute plain_machine hello ''hello'' (JObject []) sample_world
     = execute plain_machine hello [] (JObject []) sample_world"
  by code_simp

section \<open>The timeout of the process runner\<close>

text \<open>
  Claim C1 does not hold of the code. The runner arms \<open>alarm\<close> and waits, and nothing
  in the program installs a handler for \<open>SIGALRM\<close>. For a program that loops forever,
  run under the configured execution timeout of ten seconds, the alarm ends the engine's
  own process after those ten seconds: \<open>execute\<close> does not return, no signal has been
  sent to the program, and the last call of the engine is the \<open>waitpid\<close> it was blocked
  in, so the program is neither ended nor reaped. The same holds for the runner called
  directly with a timeout of one second.
\<close>

theorem timeout_ends_the_engine:
  "terminated (execute looping_machine hello [] (JObject []) sample_world)
   \<and> signals_sent (trace (world_of
        (execute looping_machine hello [] (JObject []) sample_world))) = []
   \<and> clock_ms (world_of (execute looping_machine hello [] (JObject []) sample_world)) = 10000
   \<and> last (trace (world_of (execute looping_machine hello [] (JObject []) sample_world)))
       = Parent Waitpid
   \<and> terminated (executeProcess looping_machine [sample_executable] 1 sample_world)
   \<and> signals_sent (trace (world_of
        (executeProcess looping_machine [sample_executable] 1 sample_world))) = []"
  by code_simp

text \<open>
  Had the engine a handler that interrupts \<open>waitpid\<close>, the branch of lines 429 to 433
  would be reached: it sends \<open>SIGTERM\<close> and waits again, with the alarm cancelled. A
  program that ignores \<open>SIGTERM\<close> then blocks the call for good; \<open>SIGTERM\<close> is the only
  signal ever sent, there is no grace interval and no \<open>SIGKILL\<close>.
\<close>

lemma stubborn_program_blocks_the_runner:
  "blocks (executeProcess stubborn_machine [sample_executable] 1 sample_world)
   \<and> signals_sent (trace (world_of
        (executeProcess stubborn_machine [sample_executable] 1 sample_world))) = [SIGTERM]
   \<and> clock_ms (world_of
        (executeProcess stubborn_machine [sample_executable] 1 sample_world)) = 1000"
  by code_simp

end
